theory Spec2Isabelle
  imports Complex_Main "HOL-Library.Sublist"
begin

section \<open>Expense status (types/expense.ts)\<close>

text \<open>
  \<open>ExpenseStatus\<close> is the union of the strings "pending", "approved", "denied" and
  "flagged". The decision states of the specification are the same four.
\<close>

datatype ExpenseStatus = Pending | Approved | Denied | Flagged

section \<open>The decision pipeline of the specification\<close>

text \<open>
  The sources hold the web client. The stages that decide a submission (policy
  resolver, policy validator, anomaly scorer, decision router, HITL gate) run in the
  n8n workflow, which is not among them; the definitions of this section are written
  from the specification, sections 3 and 4.
\<close>

text \<open>\<open>PolicyStatus\<close> (types/policy.ts) is the union of the strings "active" and "inactive".\<close>

datatype PolicyStatus = active | inactive

text \<open>Modelled from the spec: the Policy of section 3, as the pipeline reads it.\<close>

record Policy =
  policyId :: string
  category :: string
  maxAmount :: real
  currency :: string
  requiresReceipt :: bool
  requiresApproval :: bool
  approvalThreshold :: real
  status :: PolicyStatus

text \<open>Modelled from the spec: the canonical ExpenseSubmission of section 3.\<close>

record ExpenseSubmission =
  transactionId :: string
  employeeId :: string
  dateIncurred :: string
  dateSubmitted :: string
  description :: string
  vendor :: "string option"
  paymentMethod :: string
  currency :: string
  amount :: real
  category :: string
  receiptAttached :: bool
  reimbursementType :: string

text \<open>
  Modelled from the spec: the errors of section 7 that the stages below return. The
  spec names no error for resolving a submission that is still pending; the model calls
  it \<open>NotFlaggedError\<close>.
\<close>

datatype PipelineError = NoPolicyError | AlreadyResolvedError | NotFlaggedError

text \<open>
  Modelled from the spec: the Policy Resolver (section 4.3), which is missing from the
  sources. An active policy of the submission's category first, the active "Global"
  policy otherwise, \<open>NoPolicyError\<close> when there is neither.
\<close>

definition resolvePolicy :: "string \<Rightarrow> Policy list \<Rightarrow> PipelineError + Policy" where
  "resolvePolicy cat policies =
     (case find (\<lambda>p. status p = active \<and> Policy.category p = cat) policies of
        Some p \<Rightarrow> Inr p
      | None \<Rightarrow>
          (case find (\<lambda>p. status p = active \<and> Policy.category p = ''Global'') policies of
             Some p \<Rightarrow> Inr p
           | None \<Rightarrow> Inl NoPolicyError))"

text \<open>Modelled from the spec: the kinds of violation that section 3 lists.\<close>

datatype ViolationKind = amount_exceeds_limit | receipt_required | category_unmatched

text \<open>Modelled from the spec: a Violation (section 3), a kind and a human-readable reason.\<close>

record Violation =
  kind :: ViolationKind
  violationReason :: string

text \<open>Modelled from the spec: the ValidationResult of section 3.\<close>

record ValidationResult =
  ok :: bool
  violations :: "Violation list"

text \<open>
  Modelled from the spec: the Policy Validator (section 4.4), which is missing from the
  sources. All three checks run and every violation is collected; \<open>recognised\<close> is the
  set of categories the organisation recognises.
\<close>

definition policyValidator :: "string list \<Rightarrow> Policy \<Rightarrow> ExpenseSubmission \<Rightarrow> ValidationResult" where
  "policyValidator recognised p sub =
     (let vs =
        (if maxAmount p < amount sub
         then [\<lparr>kind = amount_exceeds_limit, violationReason = ''amount exceeds the policy limit''\<rparr>]
         else [])
        @ (if requiresReceipt p \<and> \<not> receiptAttached sub
           then [\<lparr>kind = receipt_required, violationReason = ''receipt required''\<rparr>]
           else [])
        @ (if category sub \<notin> set recognised
           then [\<lparr>kind = category_unmatched, violationReason = ''category not recognised''\<rparr>]
           else [])
      in \<lparr>ok = (vs = []), violations = vs\<rparr>)"

text \<open>
  Modelled from the spec: the five signals of the Anomaly Scorer (section 4.5), which
  is missing from the sources. Which signals a submission triggers depends on
  configured thresholds and on the history an external collaborator supplies; the
  scorer is given the set of triggered signals.
\<close>

datatype Signal =
    AmountAboveTrailingMean
  | DateOutOfRange
  | PersonalUseDescription
  | SubmissionLag
  | CurrencyMismatch

text \<open>Modelled from the spec: the weight of each signal (section 4.5).\<close>

fun weight :: "Signal \<Rightarrow> nat" where
  "weight AmountAboveTrailingMean = 40"
| "weight DateOutOfRange = 35"
| "weight PersonalUseDescription = 25"
| "weight SubmissionLag = 15"
| "weight CurrencyMismatch = 10"

text \<open>
  Modelled from the spec: the reason a signal contributes to the list of reasons. The
  spec gives the conditions, not the wording.
\<close>

fun signalReason :: "Signal \<Rightarrow> string" where
  "signalReason AmountAboveTrailingMean = ''amount more than 3x the trailing mean''"
| "signalReason DateOutOfRange = ''date incurred in the future or too old''"
| "signalReason PersonalUseDescription = ''description suggests personal use''"
| "signalReason SubmissionLag = ''submission lag beyond threshold''"
| "signalReason CurrencyMismatch = ''currency mismatch without USD amount''"

text \<open>Modelled from the spec: the signals in the order of the reasons, highest weight first.\<close>

definition ALL_SIGNALS :: "Signal list" where
  "ALL_SIGNALS =
     [AmountAboveTrailingMean, DateOutOfRange, PersonalUseDescription, SubmissionLag,
      CurrencyMismatch]"

text \<open>Modelled from the spec: the triggered signals in that order.\<close>

definition contributingSignals :: "Signal set \<Rightarrow> Signal list" where
  "contributingSignals triggered = filter (\<lambda>s. s \<in> triggered) ALL_SIGNALS"

text \<open>Modelled from the spec: the AnomalySignal of section 3.\<close>

record AnomalySignal =
  score :: nat
  reasons :: "string list"

text \<open>
  Modelled from the spec: the Anomaly Scorer (section 4.5). The score is the sum of the
  weights of the triggered signals, capped at 100.
\<close>

definition anomalyScorer :: "Signal set \<Rightarrow> AnomalySignal" where
  "anomalyScorer triggered =
     \<lparr>score = min 100 (sum_list (map weight (contributingSignals triggered))),
      reasons = map signalReason (contributingSignals triggered)\<rparr>"

text \<open>
  Modelled from the spec: the Decision of section 3, with its state, its reason and its
  actor (the timestamp is left out).
\<close>

record Decision =
  state :: ExpenseStatus
  decisionReason :: string
  actor :: string

text \<open>Modelled from the spec: the default flag threshold of section 4.6.\<close>

definition FLAG_THRESHOLD :: nat where
  "FLAG_THRESHOLD = 50"

text \<open>
  Modelled from the spec: the Decision Router (section 4.6), which is missing from the
  sources. The four rules in their order; rule 3 reads the policy and the amount.
\<close>

definition decisionRouter ::
  "nat \<Rightarrow> Policy \<Rightarrow> real \<Rightarrow> ValidationResult \<Rightarrow> AnomalySignal \<Rightarrow> Decision" where
  "decisionRouter flagThreshold p amt v a =
     (if \<not> ok v then
        \<lparr>state = Denied, decisionReason = concat (map violationReason (violations v)), actor = ''system''\<rparr>
      else if flagThreshold \<le> score a then
        \<lparr>state = Flagged, decisionReason = concat (reasons a), actor = ''system''\<rparr>
      else if requiresApproval p \<and> approvalThreshold p < amt then
        \<lparr>state = Flagged, decisionReason = ''explicit approval required'', actor = ''system''\<rparr>
      else
        \<lparr>state = Approved, decisionReason = ''within policy, no anomalies'', actor = ''system''\<rparr>)"

text \<open>
  Modelled from the spec: the stages from the Policy Resolver to the Decision Router in
  sequence (section 2). A submission for which no policy resolves is denied with the
  reason "no applicable policy".
\<close>

definition evaluateSubmission ::
  "nat \<Rightarrow> string list \<Rightarrow> Policy list \<Rightarrow> Signal set \<Rightarrow> ExpenseSubmission \<Rightarrow> Decision" where
  "evaluateSubmission flagThreshold recognised policies triggered sub =
     (case resolvePolicy (category sub) policies of
        Inl e \<Rightarrow> \<lparr>state = Denied, decisionReason = ''no applicable policy'', actor = ''system''\<rparr>
      | Inr p \<Rightarrow>
          decisionRouter flagThreshold p (amount sub) (policyValidator recognised p sub)
            (anomalyScorer triggered))"

text \<open>Modelled from the spec: the two decisions an administrator can take (section 4.7).\<close>

datatype HitlDecision = HitlApproved | HitlDenied

text \<open>Modelled from the spec: the terminal state each of the two decisions leads to.\<close>

fun hitlState :: "HitlDecision \<Rightarrow> ExpenseStatus" where
  "hitlState HitlApproved = Approved"
| "hitlState HitlDenied = Denied"

text \<open>
  Modelled from the spec: the HITL Gate (section 4.7), which is missing from the
  sources as a state-checking operation (the client's \<open>sendAdminDecision\<close> is a stub).
  \<open>resolve\<close> is legal on a flagged submission only; on one that is approved or denied
  it fails with \<open>AlreadyResolvedError\<close>.
\<close>

definition resolve ::
  "Decision \<Rightarrow> string \<Rightarrow> HitlDecision \<Rightarrow> string option \<Rightarrow> PipelineError + Decision" where
  "resolve current adminId chosen why =
     (case state current of
        Flagged \<Rightarrow>
          Inr \<lparr>state = hitlState chosen,
               decisionReason = (case why of Some r \<Rightarrow> r | None \<Rightarrow> ''resolved by administrator''),
               actor = adminId\<rparr>
      | Pending \<Rightarrow> Inl NotFlaggedError
      | Approved \<Rightarrow> Inl AlreadyResolvedError
      | Denied \<Rightarrow> Inl AlreadyResolvedError)"

text \<open>
  Modelled from the spec: the decision state machine (section 3). The status of a
  submission changes in two ways only: the Decision Router decides a pending
  submission, and the HITL Gate resolves one.
\<close>

inductive transition :: "Decision \<Rightarrow> Decision \<Rightarrow> bool" where
  routed:
    "state current = Pending
     \<Longrightarrow> transition current (evaluateSubmission flagThreshold recognised policies triggered sub)"
| resolved:
    "resolve current adminId chosen why = Inr next
     \<Longrightarrow> transition current next"

section \<open>Strings\<close>

text \<open>
  A JavaScript string is modelled as a \<^typ>\<open>string\<close>, a list of 8-bit characters: the
  model covers the strings whose code units lie in the Latin-1 range. On that range
  \<open>String.prototype.toLowerCase\<close> maps \<open>A\<close>..\<open>Z\<close> and the accented capitals
  U+00C0..U+00DE (the multiplication sign U+00D7 apart) to the code unit 32 above, and
  leaves every other code unit alone.
\<close>

definition isUpperCode :: "nat \<Rightarrow> bool" where
  "isUpperCode n = ((65 \<le> n \<and> n \<le> 90) \<or> (192 \<le> n \<and> n \<le> 222 \<and> n \<noteq> 215))"

definition lowerChar :: "char \<Rightarrow> char" where
  "lowerChar c = (let n = (of_char c :: nat) in if isUpperCode n then char_of (n + 32) else c)"

definition toLowerCase :: "string \<Rightarrow> string" where
  "toLowerCase s = map lowerChar s"

text \<open>\<open>s.includes(t)\<close>: \<open>t\<close> occurs in \<open>s\<close> as a contiguous run of characters.\<close>

fun includesSub :: "string \<Rightarrow> string \<Rightarrow> bool" where
  "includesSub [] t = (t = [])"
| "includesSub (c # cs) t = (prefix t (c # cs) \<or> includesSub cs t)"

section \<open>The log viewer (LogsPage)\<close>

record LogEntry =
  timestamp :: string
  message :: string
  workflow :: string
  node :: string
  eventType :: string
  executionId :: string
  userId :: string

definition SECURITY_THREAT_TAGS :: "string list" where
  "SECURITY_THREAT_TAGS =
     [''injection detected'', ''injection_detected'', ''prompt injection'',
      ''prompt_injection'', ''filtering detected'', ''blacklisted'', ''blacklist'',
      ''blacklisted_word'', ''blacklisted word'', ''bad_prompt'', ''bad prompt'',
      ''malicious'', ''blocked'', ''threat detected'', ''security_alert'',
      ''flagged_dangerous'', ''vulnerability'', ''exploit'', ''attack'']"

text \<open>
  \<open>isSecurityThreat\<close>: the negative markers are tested first and end the function with
  \<open>false\<close>; only then is the tag list searched (\<open>Array.prototype.some\<close>).
\<close>

definition isSecurityThreat :: "string \<Rightarrow> bool" where
  "isSecurityThreat evType =
     (let type = toLowerCase evType
      in if includesSub type ''not detected'' \<or> includesSub type ''no prompt''
            \<or> includesSub type ''not_detected'' \<or> includesSub type ''no filtering''
            \<or> includesSub type ''safe model'' \<or> includesSub type ''passed''
         then False
         else list_ex (\<lambda>tag. includesSub type tag) SECURITY_THREAT_TAGS)"

text \<open>
  \<open>getEventTypeClass\<close> lower-cases its argument and hands the lower-cased copy to
  \<open>isSecurityThreat\<close>, which lower-cases again.
\<close>

definition getEventTypeClass :: "string \<Rightarrow> string" where
  "getEventTypeClass evType =
     (let type = toLowerCase evType
      in if isSecurityThreat type then ''log-badge log-badge--critical''
         else if includesSub type ''error'' \<or> includesSub type ''fail''
           then ''log-badge log-badge--error''
         else if includesSub type ''warn'' \<or> includesSub type ''detected''
                 \<or> includesSub type ''flag''
           then ''log-badge log-badge--warning''
         else if includesSub type ''success'' \<or> includesSub type ''complete''
                 \<or> includesSub type ''passed'' \<or> includesSub type ''clean''
           then ''log-badge log-badge--success''
         else ''log-badge log-badge--info'')"



text \<open>
  A label of \<open>getSecurityTagLabel\<close>. The fixed labels begin with a pictograph that lies
  outside the character range of the string model, so a fixed label is its pictograph
  and its text; the fallback \<open>eventType.toUpperCase()\<close> is kept as the upper-casing of
  its argument.
\<close>

datatype LabelIcon = WarningSign | NoEntrySign

datatype TagLabel = UpperCased string | Canned LabelIcon string

definition getSecurityTagLabel :: "string \<Rightarrow> TagLabel" where
  "getSecurityTagLabel evType =
     (let type = toLowerCase evType
      in if includesSub type ''not detected'' \<or> includesSub type ''no prompt''
            \<or> includesSub type ''not_detected'' \<or> includesSub type ''no filtering''
            \<or> includesSub type ''safe model'' \<or> includesSub type ''passed''
           then UpperCased evType
         else if includesSub type ''prompt injection'' \<or> includesSub type ''prompt_injection''
                 \<or> includesSub type ''injection detected''
                 \<or> includesSub type ''filtering detected''
           then Canned WarningSign ''PROMPT INJECTION DETECTED''
         else if includesSub type ''blacklist''
           then Canned WarningSign ''BLACKLISTED WORD DETECTED''
         else if includesSub type ''bad_prompt'' \<or> includesSub type ''bad prompt''
           then Canned WarningSign ''BAD PROMPT DETECTED''
         else if includesSub type ''malicious''
           then Canned WarningSign ''MALICIOUS CONTENT''
         else if includesSub type ''blocked''
           then Canned NoEntrySign ''BLOCKED''
         else if includesSub type ''vulnerability''
           then Canned WarningSign ''VULNERABILITY DETECTED''
         else if includesSub type ''exploit''
           then Canned WarningSign ''EXPLOIT ATTEMPT''
         else if includesSub type ''attack''
           then Canned WarningSign ''ATTACK DETECTED''
         else if includesSub type ''threat'' \<or> includesSub type ''security_alert''
           then Canned WarningSign ''SECURITY THREAT''
         else UpperCased evType)"

text \<open>
  One row of the log list, in the four cells that a classification decides: the
  event-type badge, the workflow cell, the node cell (absent when the node is empty or
  "unknown") and the message. A cell shows a text as it is (\<open>Plain\<close>), a node behind an
  arrow (\<open>Arrow\<close>), or the alarm pictograph and a label (\<open>Alert\<close>). The timestamp and
  the employee line, which no classification touches, are left out.
\<close>

datatype CellContent = Plain string | Arrow string | Alert TagLabel

record Cell =
  className :: string
  children :: CellContent

record RowView =
  eventCell :: Cell
  workflowCell :: Cell
  nodeCell :: "Cell option"
  messageCell :: Cell

definition renderRow :: "LogEntry \<Rightarrow> RowView" where
  "renderRow entry =
     \<lparr>eventCell =
        \<lparr>className = getEventTypeClass (eventType entry),
         children = (if isSecurityThreat (eventType entry)
                     then Alert (getSecurityTagLabel (eventType entry))
                     else Plain (eventType entry))\<rparr>,
      workflowCell =
        (if isSecurityThreat (workflow entry)
         then \<lparr>className = ''log-badge log-badge--critical'',
               children = Alert (getSecurityTagLabel (workflow entry))\<rparr>
         else \<lparr>className = ''log-workflow'', children = Plain (workflow entry)\<rparr>),
      nodeCell =
        (if node entry \<noteq> [] \<and> node entry \<noteq> ''unknown''
         then Some (if isSecurityThreat (node entry)
                    then \<lparr>className = ''log-badge log-badge--critical'',
                          children = Alert (getSecurityTagLabel (node entry))\<rparr>
                    else \<lparr>className = ''log-node'', children = Arrow (node entry)\<rparr>)
         else None),
      messageCell =
        \<lparr>className = ''log-message '' @
           (if isSecurityThreat (message entry) \<or> isSecurityThreat (node entry)
               \<or> isSecurityThreat (workflow entry)
            then ''log-message--threat'' else []),
         children = Plain (message entry)\<rparr>\<rparr>"

section \<open>JavaScript values\<close>

text \<open>
  A number is \<open>NaN\<close>, an infinity or a finite value; only its sign and its being a number
  matter below, so a finite value is a real and rounding is left out. \<open>numLe0 x\<close> is the
  comparison \<open>x <= 0\<close> (false on \<open>NaN\<close>), \<open>numTruthy x\<close> the truth value of \<open>x\<close> in a
  condition (false on \<open>NaN\<close> and on zero).
\<close>

datatype jsnum = NaN | NegInf | Fin real | PosInf

fun numLe0 :: "jsnum \<Rightarrow> bool" where
  "numLe0 NaN = False"
| "numLe0 NegInf = True"
| "numLe0 (Fin r) = (r \<le> 0)"
| "numLe0 PosInf = False"

fun numTruthy :: "jsnum \<Rightarrow> bool" where
  "numTruthy NaN = False"
| "numTruthy (Fin r) = (r \<noteq> 0)"
| "numTruthy NegInf = True"
| "numTruthy PosInf = True"

text \<open>The values that \<open>JSON.parse\<close> yields, and \<open>undefined\<close>.\<close>

datatype jsval =
    JUndefined
  | JNull
  | JBool bool
  | JNumber jsnum
  | JString string
  | JArray "jsval list"
  | JObject "(string \<times> jsval) list"

fun truthy :: "jsval \<Rightarrow> bool" where
  "truthy JUndefined = False"
| "truthy JNull = False"
| "truthy (JBool b) = b"
| "truthy (JNumber n) = numTruthy n"
| "truthy (JString s) = (s \<noteq> [])"
| "truthy (JArray xs) = True"
| "truthy (JObject kvs) = True"

text \<open>\<open>a || b\<close> on values.\<close>

definition orElse :: "jsval \<Rightarrow> jsval \<Rightarrow> jsval" where
  "orElse a b = (if truthy a then a else b)"

text \<open>
  What a \<open>throw\<close> or a rejected promise carries: an \<open>Error\<close> with its message, or some
  other value. A computation that can throw returns \<open>thrown + 'a\<close>; \<open>bindE\<close> runs the
  next step on a normal result and passes a thrown value on.
\<close>

datatype thrown = Error string | NonError jsval

definition bindE :: "thrown + 'a \<Rightarrow> ('a \<Rightarrow> thrown + 'b) \<Rightarrow> thrown + 'b" where
  "bindE m f = (case m of Inl e \<Rightarrow> Inl e | Inr v \<Rightarrow> f v)"

text \<open>
  Reading a property \<open>v.k\<close>: a \<open>TypeError\<close> on \<open>undefined\<close> and \<open>null\<close>, the stored value
  on an object that has the key, \<open>undefined\<close> otherwise. (None of the keys read below is
  a built-in property of strings, numbers or arrays. The text of the \<open>TypeError\<close> is the
  engine's own; it is given here in V8's wording.)
\<close>

fun getProp :: "jsval \<Rightarrow> string \<Rightarrow> thrown + jsval" where
  "getProp JUndefined k =
     Inl (Error (''Cannot read properties of undefined (reading '' @ [CHR 0x27] @ k @ [CHR 0x27] @ '')''))"
| "getProp JNull k =
     Inl (Error (''Cannot read properties of null (reading '' @ [CHR 0x27] @ k @ [CHR 0x27] @ '')''))"
| "getProp (JObject kvs) k = Inr (case map_of kvs k of None \<Rightarrow> JUndefined | Some v \<Rightarrow> v)"
| "getProp v k = Inr JUndefined"

text \<open>Decimal digits of a natural number, as \<open>Number.prototype.toString\<close> prints an integer.\<close>

fun toStringNat :: "nat \<Rightarrow> string" where
  "toStringNat n =
     (if n < 10 then [char_of (48 + n)]
      else toStringNat (n div 10) @ [char_of (48 + n mod 10)])"

declare toStringNat.simps [simp del]

text \<open>\<open>s.slice(-k)\<close>: the last \<open>k\<close> characters, all of \<open>s\<close> when it is shorter.\<close>

definition sliceLast :: "nat \<Rightarrow> string \<Rightarrow> string" where
  "sliceLast k s = drop (length s - k) s"

text \<open>\<open>s.padStart(k, c)\<close> for a one-character filler: \<open>c\<close> is put in front until the length is \<open>k\<close>.\<close>

function padStart :: "nat \<Rightarrow> char \<Rightarrow> string \<Rightarrow> string" where
  "padStart k c s = (if length s < k then padStart k c (c # s) else s)"
  by pat_completeness auto
termination
  by (relation "measure (\<lambda>(k, c, s). k - length s)") auto

declare padStart.simps [simp del]

text \<open>\<open>s.trim()\<close>: white space and line terminators of the Latin-1 range removed at both ends.\<close>

definition isWhiteSpace :: "char \<Rightarrow> bool" where
  "isWhiteSpace c = ((of_char c :: nat) \<in> {9, 10, 11, 12, 13, 32, 160})"

definition trim :: "string \<Rightarrow> string" where
  "trim s = rev (dropWhile isWhiteSpace (rev (dropWhile isWhiteSpace s)))"

section \<open>Expense records (types/expense.ts)\<close>

text \<open>
  An \<open>Expense\<close> as \<open>mapSheetRowToExpense\<close> builds it. The fields copied from a sheet
  row hold whatever value the row has, so they are values, not strings. The optional
  fields that no modelled function reads or writes (\<open>decisionReason\<close>, \<open>policyUsed\<close>,
  \<open>logId\<close>, \<open>riskScore\<close>, \<open>flagReason\<close>) are left out. The field \<open>id\<close> is named
  \<open>id'\<close>.
\<close>

record Expense =
  id' :: jsval
  transactionId :: jsval
  employeeId :: jsval
  category :: jsval
  amount :: jsnum
  amountUSD :: "jsnum option"
  currency :: jsval
  description :: jsval
  vendor :: jsval
  dateIncurred :: jsval
  dateSubmitted :: jsval
  status :: ExpenseStatus
  paymentMethod :: jsval
  reimbursementType :: jsval
  receiptAttached :: string

section \<open>The n8n client (n8nClient.ts) and its environment\<close>

datatype UserRole = employee | admin

record ExpenseFormData =
  employeeId :: string
  category :: string
  amount :: jsnum
  currency :: string
  description :: string
  vendor :: string
  paymentMethod :: string
  dateIncurred :: string
  reimbursementType :: string
  receiptFile :: "string option"

text \<open>
  \<open>completeExpenseData\<close> of \<open>handleManualSubmit\<close>: the form data spread into a new
  object with three more fields.
\<close>

record CompleteExpenseData = ExpenseFormData +
  transactionId :: string
  dateSubmitted :: string
  receiptAttached :: string

record ExpenseSubmissionPayload =
  idToken :: "string option"
  role :: UserRole
  submissionType :: string
  expense :: CompleteExpenseData

text \<open>A response of \<open>fetch\<close>: \<open>bodyText\<close> is what \<open>response.text()\<close> resolves to or rejects with.\<close>

record HttpResponse =
  ok :: bool
  status :: nat
  bodyText :: "thrown + string"

text \<open>
  Everything outside the client that its functions read: the ID token of the current
  user (\<open>Inr None\<close> when nobody is logged in, \<open>Inl\<close> when the forced refresh rejects), the
  outcome of each \<open>fetch\<close> call as a function of what is sent, and the built-ins
  \<open>JSON.parse\<close>, \<open>parseFloat\<close>, \<open>Date.now()\<close>, \<open>Math.random()\<close> and
  \<open>new Date().toISOString()\<close>.
\<close>

record Env =
  getIdToken :: "thrown + string option"
  fetchSubmitExpense :: "ExpenseSubmissionPayload \<Rightarrow> thrown + HttpResponse"
  fetchFetchExpenses :: "string \<Rightarrow> string option \<Rightarrow> thrown + HttpResponse"
  JSON_parse :: "string \<Rightarrow> thrown + jsval"
  parseFloat :: "jsval \<Rightarrow> jsnum"
  Date_now :: nat
  Math_random :: real
  nowISOString :: string

text \<open>
  The results \<open>{success, message}\<close> and \<open>{success, message, expenseId}\<close>. The message
  is declared a string; at run time it is the value the response carries.
\<close>

record ApiResult =
  success :: bool
  message :: jsval

record SubmitResult = ApiResult +
  expenseId :: jsval

text \<open>
  \<open>submitExpense\<close>. The token is fetched before the \<open>try\<close> block, so its failure leaves
  the function as an exception (\<open>Inl\<close>). Everything thrown inside the block is caught and
  becomes a result with \<open>success: false\<close>.
\<close>

definition submitExpenseTry :: "Env \<Rightarrow> ExpenseSubmissionPayload \<Rightarrow> thrown + SubmitResult" where
  "submitExpenseTry env payload =
     bindE (fetchSubmitExpense env payload) (\<lambda>response.
       if \<not> ok response then
         bindE (bodyText response) (\<lambda>errorText.
           Inl (Error (''HTTP error! status: '' @ toStringNat (status response))))
       else
         bindE (bindE (bodyText response) (JSON_parse env)) (\<lambda>result.
         bindE (getProp result ''message'') (\<lambda>m.
         bindE (getProp result ''expenseId'') (\<lambda>eid.
         bindE (if truthy eid then Inr eid else getProp result ''TransactionID'') (\<lambda>eid'.
           Inr \<lparr>success = True,
                message = orElse m (JString ''Expense submitted successfully''),
                expenseId = eid'\<rparr>)))))"

definition submitExpense :: "Env \<Rightarrow> CompleteExpenseData \<Rightarrow> UserRole \<Rightarrow> thrown + SubmitResult" where
  "submitExpense env expenseData r =
     bindE (getIdToken env) (\<lambda>tok.
       let payload = \<lparr>idToken = tok, role = r, submissionType = ''manual'',
                      expense = expenseData\<rparr>
       in case submitExpenseTry env payload of
            Inr res \<Rightarrow> Inr res
          | Inl err \<Rightarrow>
              Inr \<lparr>success = False,
                   message = (case err of
                                Error msg \<Rightarrow> JString msg
                              | NonError v \<Rightarrow> JString ''Failed to submit expense. Please try again.''),
                   expenseId = JUndefined\<rparr>)"

text \<open>
  \<open>mapStatus\<close>. A missing or empty status is "pending"; a status that is no string has
  no \<open>toLowerCase\<close>, and the call throws a \<open>TypeError\<close>.
\<close>

definition mapStatus :: "jsval \<Rightarrow> thrown + ExpenseStatus" where
  "mapStatus st =
     (if \<not> truthy st then Inr Pending
      else case st of
             JString str \<Rightarrow>
               (let s = toLowerCase str
                in if s = ''approved'' then Inr Approved
                   else if s = ''denied'' \<or> s = ''rejected'' then Inr Denied
                   else if s = ''flagged'' then Inr Flagged
                   else Inr Pending)
           | _ \<Rightarrow> Inl (Error ''status.toLowerCase is not a function''))"

text \<open>\<open>readProp v k\<close> reads \<open>v.k\<close> of a value known to be neither \<open>null\<close> nor \<open>undefined\<close>.\<close>

definition readProp :: "jsval \<Rightarrow> string \<Rightarrow> jsval" where
  "readProp v k = (case getProp v k of Inr x \<Rightarrow> x | Inl e \<Rightarrow> JUndefined)"

text \<open>
  \<open>mapSheetRowToExpense\<close>. The first property read throws when the row is \<open>null\<close> or
  \<open>undefined\<close>; \<open>mapStatus\<close> may throw; nothing else does.
\<close>

definition mapSheetRowToExpense :: "Env \<Rightarrow> jsval \<Rightarrow> thrown + Expense" where
  "mapSheetRowToExpense env row =
     bindE (getProp row ''TransactionID'') (\<lambda>tid.
     bindE (mapStatus (orElse (readProp row ''Status'') (readProp row ''status''))) (\<lambda>st.
       Inr \<lparr>id' = orElse tid (orElse (readProp row ''id'')
                     (JString (''exp-'' @ toStringNat (Date_now env)))),
            transactionId = orElse tid (readProp row ''transactionId''),
            employeeId = orElse (readProp row ''EmployeeID'')
                           (orElse (readProp row ''employeeId'') (JString [])),
            category = orElse (readProp row ''Category'')
                         (orElse (readProp row ''category'') (JString ''Other'')),
            amount = parseFloat env (orElse (readProp row ''Amount'')
                         (orElse (readProp row ''amount'') (JNumber (Fin 0)))),
            amountUSD = (if truthy (readProp row ''AmountUSD'')
                         then Some (parseFloat env (readProp row ''AmountUSD'')) else None),
            currency = orElse (readProp row ''Currency'')
                         (orElse (readProp row ''currency'') (JString ''USD'')),
            description = orElse (readProp row ''Description'')
                            (orElse (readProp row ''description'') (JString [])),
            vendor = orElse (readProp row ''Vendor'') (readProp row ''vendor''),
            dateIncurred = orElse (readProp row ''DateIncurred'')
                             (orElse (readProp row ''dateIncurred'') (JString (nowISOString env))),
            dateSubmitted = orElse (readProp row ''DateSubmitted'') (readProp row ''dateSubmitted''),
            status = st,
            paymentMethod = orElse (readProp row ''PaymentMethod'')
                              (orElse (readProp row ''paymentMethod'') (JString [])),
            reimbursementType = orElse (readProp row ''ReimbursementType'')
                                  (orElse (readProp row ''reimbursementType'') (JString [])),
            receiptAttached = (if readProp row ''ReceiptAttached'' = JString ''Y''
                                  \<or> readProp row ''receiptAttached'' = JString ''Y''
                               then ''Y'' else ''N'')\<rparr>))"

text \<open>\<open>rows.map(f)\<close> for an \<open>f\<close> that may throw: the first throw ends the map.\<close>

fun mapE :: "('a \<Rightarrow> thrown + 'b) \<Rightarrow> 'a list \<Rightarrow> thrown + 'b list" where
  "mapE f [] = Inr []"
| "mapE f (x # xs) = bindE (f x) (\<lambda>y. bindE (mapE f xs) (\<lambda>ys. Inr (y # ys)))"

text \<open>
  \<open>fetchEmployeeExpenses\<close>, in three parts: what happens to the parsed response once
  it is no array of expense rows (\<open>extractFromObject\<close>), what happens to the parsed
  response (\<open>extractExpenses\<close>), and the function itself, whose \<open>catch\<close> turns every
  throw of the \<open>try\<close> block into the empty list. The function does not look at
  \<open>response.ok\<close>.
\<close>

definition extractFromObject :: "Env \<Rightarrow> jsval \<Rightarrow> thrown + Expense list" where
  "extractFromObject env data =
     bindE (getProp data ''expenses'') (\<lambda>ex.
       case ex of
         JArray rows \<Rightarrow> mapE (mapSheetRowToExpense env) rows
       | _ \<Rightarrow>
           (case (let b = readProp data ''body''
                  in if b = JUndefined \<or> b = JNull then JUndefined else readProp b ''expenses'') of
              JArray rows \<Rightarrow> mapE (mapSheetRowToExpense env) rows
            | _ \<Rightarrow>
                if truthy (readProp data ''TransactionID'') \<or> truthy (readProp data ''EmployeeID'')
                then bindE (mapSheetRowToExpense env data) (\<lambda>e. Inr [e])
                else (case data of
                        JString str \<Rightarrow>
                          (case JSON_parse env str of
                             Inr (JArray rows) \<Rightarrow>
                               (case mapE (mapSheetRowToExpense env) rows of
                                  Inr es \<Rightarrow> Inr es
                                | Inl e \<Rightarrow> Inr [])
                           | _ \<Rightarrow> Inr [])
                      | _ \<Rightarrow> Inr [])))"

definition extractExpenses :: "Env \<Rightarrow> jsval \<Rightarrow> thrown + Expense list" where
  "extractExpenses env data =
     (case data of
        JArray (x # xs) \<Rightarrow>
          bindE (getProp x ''TransactionID'') (\<lambda>tid.
            if truthy tid then mapE (mapSheetRowToExpense env) (x # xs)
            else extractFromObject env x)
      | _ \<Rightarrow> extractFromObject env data)"

definition fetchEmployeeExpensesTry :: "Env \<Rightarrow> string \<Rightarrow> string option \<Rightarrow> thrown + Expense list" where
  "fetchEmployeeExpensesTry env empId tok =
     bindE (fetchFetchExpenses env empId tok) (\<lambda>response.
     bindE (bodyText response) (\<lambda>responseText.
       if responseText = [] \<or> trim responseText = [] then Inr []
       else bindE (JSON_parse env responseText) (extractExpenses env)))"

definition fetchEmployeeExpenses :: "Env \<Rightarrow> string \<Rightarrow> thrown + Expense list" where
  "fetchEmployeeExpenses env empId =
     bindE (getIdToken env) (\<lambda>tok.
       case fetchEmployeeExpensesTry env empId tok of
         Inr es \<Rightarrow> Inr es
       | Inl err \<Rightarrow> Inr [])"

text \<open>
  \<open>sendAdminDecision\<close>: a stub. It fetches the token, logs the payload and returns
  success; the request to the backend is commented out.
\<close>

datatype AdminDecision = approve | deny

fun decisionWord :: "AdminDecision \<Rightarrow> string" where
  "decisionWord approve = ''approve''"
| "decisionWord deny = ''deny''"

definition sendAdminDecision ::
  "Env \<Rightarrow> jsval \<Rightarrow> AdminDecision \<Rightarrow> string option \<Rightarrow> thrown + ApiResult" where
  "sendAdminDecision env expId decision reason =
     bindE (getIdToken env) (\<lambda>tok.
       Inr \<lparr>success = True,
            message = JString (''Expense '' @ decisionWord decision @ ''d successfully (MOCK)'')\<rparr>)"

section \<open>The admin review pages (FlaggedExpensesPage, PendingExpensesPage)\<close>

text \<open>
  The state of a review page, and \<open>handleDecision\<close>, which is the same function on both
  pages. The state variables \<open>error\<close> and \<open>success\<close> are named \<open>decisionError\<close> and
  \<open>decisionSuccess\<close>.
\<close>

record ReviewPageState =
  expenses :: "Expense list"
  selectedExpense :: "Expense option"
  decisionReason :: string
  processing :: bool
  decisionError :: "jsval option"
  decisionSuccess :: "jsval option"

definition handleDecision :: "Env \<Rightarrow> AdminDecision \<Rightarrow> ReviewPageState \<Rightarrow> ReviewPageState" where
  "handleDecision env decision st =
     (case selectedExpense st of
        None \<Rightarrow> st
      | Some sel \<Rightarrow>
          (let st1 = st\<lparr>processing := True, decisionError := None\<rparr>
           in case sendAdminDecision env (id' sel) decision
                     (if decisionReason st1 = [] then None else Some (decisionReason st1)) of
                Inl err \<Rightarrow>
                  st1\<lparr>decisionError := Some (JString ''Failed to process decision. Please try again.''),
                      processing := False\<rparr>
              | Inr result \<Rightarrow>
                  (if success result
                   then st1\<lparr>decisionSuccess := Some (message result),
                            expenses := filter (\<lambda>e. id' e \<noteq> id' sel) (expenses st1),
                            selectedExpense := None,
                            decisionReason := [],
                            processing := False\<rparr>
                   else st1\<lparr>decisionError := Some (message result), processing := False\<rparr>)))"

section \<open>The new-expense page (NewExpensePage)\<close>

text \<open>
  \<open>generateTransactionId\<close>: the last three digits of the millisecond clock followed by
  the last three digits of a random number below 1000, zero-padded. The product
  \<open>Math.random() * 1000\<close> is taken exactly; the product of the two doubles, which the
  code floors, can fall on the other side of an integer and give a last digit one off.
\<close>

definition generateTransactionId :: "Env \<Rightarrow> string" where
  "generateTransactionId env =
     (let timestamp = sliceLast 6 (toStringNat (Date_now env));
          random = padStart 3 CHR ''0'' (toStringNat (nat \<lfloor>Math_random env * 1000\<rfloor>))
      in ''T-'' @ sliceLast 3 timestamp @ sliceLast 3 random)"

text \<open>
  The state of the page. The state variables \<open>error\<close> and \<open>success\<close> are named
  \<open>errorMsg\<close> and \<open>successMsg\<close>.
\<close>

record NewExpenseState =
  formData :: ExpenseFormData
  loading :: bool
  errorMsg :: "jsval option"
  successMsg :: "jsval option"

text \<open>The form as the page first shows it (the initial value of \<open>formData\<close>).\<close>

definition initialFormData :: "Env \<Rightarrow> ExpenseFormData" where
  "initialFormData env =
     \<lparr>employeeId = [], category = [], amount = Fin 0, currency = ''USD'', description = [],
      vendor = [], paymentMethod = [],
      dateIncurred = takeWhile (\<lambda>c. c \<noteq> CHR ''T'') (nowISOString env),
      reimbursementType = [], receiptFile = None\<rparr>"

text \<open>
  \<open>handleInputChange\<close>: the field named by the input is replaced; the amount goes
  through \<open>parseFloat(value) || 0\<close>. A name that is no field of the form leaves the
  fields of the form as they are.
\<close>

definition handleInputChange :: "Env \<Rightarrow> string \<Rightarrow> string \<Rightarrow> ExpenseFormData \<Rightarrow> ExpenseFormData" where
  "handleInputChange env name val prev =
     (if name = ''amount'' then
        prev\<lparr>amount := (let x = parseFloat env (JString val) in if numTruthy x then x else Fin 0)\<rparr>
      else if name = ''employeeId'' then prev\<lparr>employeeId := val\<rparr>
      else if name = ''category'' then prev\<lparr>category := val\<rparr>
      else if name = ''currency'' then prev\<lparr>currency := val\<rparr>
      else if name = ''description'' then prev\<lparr>description := val\<rparr>
      else if name = ''vendor'' then prev\<lparr>vendor := val\<rparr>
      else if name = ''paymentMethod'' then prev\<lparr>paymentMethod := val\<rparr>
      else if name = ''dateIncurred'' then prev\<lparr>dateIncurred := val\<rparr>
      else if name = ''reimbursementType'' then prev\<lparr>reimbursementType := val\<rparr>
      else prev)"

text \<open>\<open>validateManualForm\<close>: the first failing check gives the message; \<open>None\<close> is \<open>null\<close>.\<close>

definition validateManualForm :: "ExpenseFormData \<Rightarrow> string option" where
  "validateManualForm fd =
     (if category fd = [] then Some ''Please select a category.''
      else if numLe0 (amount fd) then Some ''Amount must be greater than 0.''
      else if trim (description fd) = [] then Some ''Description is required.''
      else if paymentMethod fd = [] then Some ''Please select a payment method.''
      else if reimbursementType fd = [] then Some ''Please select a reimbursement type.''
      else None)"

text \<open>
  \<open>handleManualSubmit\<close>, as a function of the page state: the new state, and the data
  handed to \<open>submitExpense\<close> when that call is made (\<open>None\<close> when the handler returns
  before it).
\<close>

definition handleManualSubmit ::
  "Env \<Rightarrow> UserRole option \<Rightarrow> NewExpenseState \<Rightarrow> NewExpenseState \<times> CompleteExpenseData option" where
  "handleManualSubmit env authRole st =
     (let st0 = st\<lparr>errorMsg := None, successMsg := None\<rparr>
      in case validateManualForm (formData st0) of
           Some validationError \<Rightarrow> (st0\<lparr>errorMsg := Some (JString validationError)\<rparr>, None)
         | None \<Rightarrow>
             (let completeExpenseData =
                    ExpenseFormData.extend (formData st0)
                      (CompleteExpenseData.fields
                         (generateTransactionId env)
                         (takeWhile (\<lambda>c. c \<noteq> CHR ''T'') (nowISOString env))
                         (if receiptFile (formData st0) \<noteq> None then ''Y'' else ''N''));
                  st1 = st0\<lparr>loading := True\<rparr>
              in case submitExpense env completeExpenseData
                        (case authRole of None \<Rightarrow> employee | Some r \<Rightarrow> r) of
                   Inl err \<Rightarrow>
                     (st1\<lparr>errorMsg := Some (JString ''Failed to submit expense. Please try again.''),
                          loading := False\<rparr>,
                      Some completeExpenseData)
                 | Inr result \<Rightarrow>
                     (if success result
                      then st1\<lparr>successMsg := Some (message result), loading := False\<rparr>
                      else st1\<lparr>errorMsg := Some (message result), loading := False\<rparr>,
                      Some completeExpenseData)))"

section \<open>Example inputs\<close>

text \<open>
  Concrete inputs on which the theorems below are evaluated. \<open>exampleEnv\<close>: a logged-in
  user and a backend that answers every submission with status 200 and the success
  object, and every fetch with an empty body. \<open>offlineEnv\<close>: the same with every
  \<open>fetch\<close> rejected by a network error.
\<close>

definition exampleEnv :: Env where
  "exampleEnv =
     \<lparr>getIdToken = Inr (Some ''id-token''),
      fetchSubmitExpense = (\<lambda>payload. Inr \<lparr>ok = True, status = 200, bodyText = Inr ''body''\<rparr>),
      fetchFetchExpenses = (\<lambda>empId tok. Inr \<lparr>ok = True, status = 200, bodyText = Inr []\<rparr>),
      JSON_parse = (\<lambda>s. Inr (JObject [(''success'', JString ''true''),
                                        (''message'', JString ''Expense submitted successfully'')])),
      parseFloat = (\<lambda>v. if v = JString ''450.75'' then Fin 450.75 else NaN),
      Date_now = 1700000000123,
      Math_random = 0.005,
      nowISOString = ''2023-11-14T22:13:20.123Z''\<rparr>"

definition offlineEnv :: Env where
  "offlineEnv =
     exampleEnv\<lparr>fetchSubmitExpense := (\<lambda>payload. Inl (Error ''Failed to fetch'')),
                fetchFetchExpenses := (\<lambda>empId tok. Inl (Error ''Failed to fetch''))\<rparr>"

definition exampleForm :: ExpenseFormData where
  "exampleForm =
     (initialFormData exampleEnv)
       \<lparr>employeeId := ''EMP-401'', category := ''Travel'', amount := Fin 450.75,
        description := ''Flight to NYC'', paymentMethod := ''Corporate Card'',
        reimbursementType := ''Employee''\<rparr>"

definition pageWith :: "ExpenseFormData \<Rightarrow> NewExpenseState" where
  "pageWith fd = \<lparr>formData = fd, loading = False, errorMsg = None, successMsg = None\<rparr>"

definition exampleExpense :: "ExpenseStatus \<Rightarrow> Expense" where
  "exampleExpense st =
     \<lparr>id' = JString ''exp-101'', transactionId = JString ''T-101'',
      employeeId = JString ''EMP-401'', category = JString ''Travel'', amount = Fin 450.75,
      amountUSD = None, currency = JString ''USD'', description = JString ''Flight to NYC'',
      vendor = JString ''Delta Airlines'', dateIncurred = JString ''2024-01-15'',
      dateSubmitted = JString ''2024-01-16'', status = st,
      paymentMethod = JString ''Corporate Card'',
      reimbursementType = JString ''Corporate Card Issuer'', receiptAttached = ''Y''\<rparr>"

definition reviewPage :: "Expense \<Rightarrow> ReviewPageState" where
  "reviewPage e =
     \<lparr>expenses = [e], selectedExpense = Some e, decisionReason = [], processing = False,
      decisionError = None, decisionSuccess = None\<rparr>"

definition exampleComplete :: CompleteExpenseData where
  "exampleComplete =
     ExpenseFormData.extend exampleForm
       (CompleteExpenseData.fields ''T-123005'' ''2023-11-14'' ''N'')"

text \<open>
  Two log entries: one whose event type carries a negative marker while its node is
  named after the detection step of the workflow, and one whose event type reports a
  detection.
\<close>

definition clearedEntry :: LogEntry where
  "clearedEntry =
     \<lparr>timestamp = ''2025-11-30T10:15:00Z'', LogEntry.message = ''input checked'',
      workflow = ''CSEN 296B Blue Team Model'', node = ''Prompt Injection Detection'',
      eventType = ''prompt injection not detected'', executionId = ''4711'',
      userId = ''EMP-401''\<rparr>"

definition detectedEntry :: LogEntry where
  "detectedEntry =
     \<lparr>timestamp = ''2025-11-30T10:16:00Z'', LogEntry.message = ''input refused'',
      workflow = ''CSEN 296B Blue Team Model'', node = ''Prompt Filtering Check'',
      eventType = ''Prompt Injection Detected'', executionId = ''4712'',
      userId = ''EMP-401''\<rparr>"

text \<open>
  Inputs of the pipeline of the specification: two active policies, of which the Global
  one has the lower limit, a Travel submission of a given amount, and the decision of
  a submission that has not been routed yet.
\<close>

definition travelPolicy :: Policy where
  "travelPolicy =
     \<lparr>policyId = ''pol-travel'', Policy.category = ''Travel'', maxAmount = 5000,
      Policy.currency = ''USD'',
      requiresReceipt = True, requiresApproval = True, approvalThreshold = 1000,
      Policy.status = active\<rparr>"

definition globalPolicy :: Policy where
  "globalPolicy =
     \<lparr>policyId = ''pol-global'', Policy.category = ''Global'', maxAmount = 100,
      Policy.currency = ''USD'',
      requiresReceipt = True, requiresApproval = False, approvalThreshold = 100,
      Policy.status = active\<rparr>"

definition travelSubmission :: "real \<Rightarrow> ExpenseSubmission" where
  "travelSubmission amt =
     \<lparr>ExpenseSubmission.transactionId = ''T-001'',
      ExpenseSubmission.employeeId = ''EMP-401'',
      ExpenseSubmission.dateIncurred = ''2025-09-10'',
      ExpenseSubmission.dateSubmitted = ''2025-09-11'',
      ExpenseSubmission.description = ''Flight to NYC'',
      ExpenseSubmission.vendor = Some ''Delta Airlines'',
      ExpenseSubmission.paymentMethod = ''Corporate Card'',
      ExpenseSubmission.currency = ''USD'',
      ExpenseSubmission.amount = amt,
      ExpenseSubmission.category = ''Travel'',
      ExpenseSubmission.receiptAttached = True,
      ExpenseSubmission.reimbursementType = ''Corporate Card Issuer''\<rparr>"

definition pendingDecision :: Decision where
  "pendingDecision = \<lparr>state = Pending, Decision.decisionReason = [], actor = ''system''\<rparr>"

section \<open>Properties of the log viewer\<close>

lemma isUpperCode_shift: "isUpperCode n \<Longrightarrow> \<not> isUpperCode (n + 32) \<and> n + 32 < 256"
  by (auto simp: isUpperCode_def)

lemma lowerChar_idem: "lowerChar (lowerChar c) = lowerChar c"
  using isUpperCode_shift [of "of_char c"]
  by (auto simp: lowerChar_def Let_def)

lemma toLowerCase_idem: "toLowerCase (toLowerCase s) = toLowerCase s"
  by (simp add: toLowerCase_def lowerChar_idem)

lemma isSecurityThreat_toLowerCase: "isSecurityThreat (toLowerCase s) = isSecurityThreat s"
  by (simp add: isSecurityThreat_def toLowerCase_idem)

lemmas string_eval = toLowerCase_def lowerChar_def isUpperCode_def char_of_def bit_0



lemma no_threat_in_empty: "\<not> isSecurityThreat []"
  by (simp add: isSecurityThreat_def toLowerCase_def SECURITY_THREAT_TAGS_def)

lemma no_threat_in_unknown: "\<not> isSecurityThreat ''unknown''"
  by (simp add: isSecurityThreat_def string_eval SECURITY_THREAT_TAGS_def)

lemma threat_node_shown: "isSecurityThreat s \<Longrightarrow> s \<noteq> [] \<and> s \<noteq> ''unknown''"
  using no_threat_in_empty no_threat_in_unknown by auto

text \<open>
  C10, as the code has it. Whenever the lower-cased event type contains one of the
  negative markers "not detected", "no prompt", "not_detected", "no filtering",
  "safe model" or "passed", \<open>isSecurityThreat\<close> returns false, whatever threat tags the
  string contains as well; the event-type badge of an entry with that event type is
  then not critical and shows the event type itself. The workflow cell, the node cell
  and the message cell of the row do not read the event type: they are the same
  whatever it is.
\<close>

theorem isSecurityThreat_negative_marker:
  assumes "includesSub (toLowerCase evType) ''not detected''
         \<or> includesSub (toLowerCase evType) ''no prompt''
         \<or> includesSub (toLowerCase evType) ''not_detected''
         \<or> includesSub (toLowerCase evType) ''no filtering''
         \<or> includesSub (toLowerCase evType) ''safe model''
         \<or> includesSub (toLowerCase evType) ''passed''"
  shows "\<not> isSecurityThreat evType
       \<and> getEventTypeClass evType \<noteq> ''log-badge log-badge--critical''
       \<and> eventCell (renderRow (entry\<lparr>eventType := evType\<rparr>))
           = \<lparr>className = getEventTypeClass evType, children = Plain evType\<rparr>
       \<and> workflowCell (renderRow (entry\<lparr>eventType := evType\<rparr>)) = workflowCell (renderRow entry)
       \<and> nodeCell (renderRow (entry\<lparr>eventType := evType\<rparr>)) = nodeCell (renderRow entry)
       \<and> messageCell (renderRow (entry\<lparr>eventType := evType\<rparr>)) = messageCell (renderRow entry)"
proof -
  have no: "\<not> isSecurityThreat evType"
    using assms by (auto simp: isSecurityThreat_def Let_def)
  then have "\<not> isSecurityThreat (toLowerCase evType)"
    by (simp add: isSecurityThreat_toLowerCase)
  then have cls: "getEventTypeClass evType \<noteq> ''log-badge log-badge--critical''"
    by (simp add: getEventTypeClass_def Let_def)
  have ev: "eventCell (renderRow (entry\<lparr>eventType := evType\<rparr>))
           = \<lparr>className = getEventTypeClass evType, children = Plain evType\<rparr>"
    using no by (simp add: renderRow_def)
  have rest: "workflowCell (renderRow (entry\<lparr>eventType := evType\<rparr>)) = workflowCell (renderRow entry)
       \<and> nodeCell (renderRow (entry\<lparr>eventType := evType\<rparr>)) = nodeCell (renderRow entry)
       \<and> messageCell (renderRow (entry\<lparr>eventType := evType\<rparr>)) = messageCell (renderRow entry)"
    by (simp add: renderRow_def)
  from no cls ev rest show ?thesis by simp
qed

theorem isSecurityThreat_negative_marker_witness:
  "includesSub (toLowerCase ''Prompt Injection ATTACK not detected, blacklist exploit'')
     ''not detected''
   \<and> list_ex (includesSub (toLowerCase ''Prompt Injection ATTACK not detected, blacklist exploit''))
       SECURITY_THREAT_TAGS
   \<and> \<not> isSecurityThreat ''Prompt Injection ATTACK not detected, blacklist exploit''
   \<and> children (eventCell (renderRow
        (detectedEntry\<lparr>eventType := ''Prompt Injection ATTACK not detected, blacklist exploit''\<rparr>)))
       = Plain ''Prompt Injection ATTACK not detected, blacklist exploit''"
proof -
  have h: "includesSub (toLowerCase ''Prompt Injection ATTACK not detected, blacklist exploit'')
     ''not detected''"
    by (simp add: string_eval)
  have t: "list_ex (includesSub (toLowerCase ''Prompt Injection ATTACK not detected, blacklist exploit''))
       SECURITY_THREAT_TAGS"
    by (simp add: string_eval SECURITY_THREAT_TAGS_def)
  from h have "includesSub (toLowerCase ''Prompt Injection ATTACK not detected, blacklist exploit'') ''not detected''
         \<or> includesSub (toLowerCase ''Prompt Injection ATTACK not detected, blacklist exploit'') ''no prompt''
         \<or> includesSub (toLowerCase ''Prompt Injection ATTACK not detected, blacklist exploit'') ''not_detected''
         \<or> includesSub (toLowerCase ''Prompt Injection ATTACK not detected, blacklist exploit'') ''no filtering''
         \<or> includesSub (toLowerCase ''Prompt Injection ATTACK not detected, blacklist exploit'') ''safe model''
         \<or> includesSub (toLowerCase ''Prompt Injection ATTACK not detected, blacklist exploit'') ''passed''"
    by (rule disjI1)
  from isSecurityThreat_negative_marker [OF this, of detectedEntry] h t show ?thesis by simp
qed

text \<open>
  C10 as stated fails: an event whose type carries a negative marker is still
  highlighted as a threat when its node is named after the detection step. The node
  cell is critical with a label, and the message gets the threat class.
\<close>

theorem cleared_event_still_highlighted:
  "includesSub (toLowerCase (eventType clearedEntry)) ''not detected''
   \<and> \<not> isSecurityThreat (eventType clearedEntry)
   \<and> nodeCell (renderRow clearedEntry)
       = Some \<lparr>className = ''log-badge log-badge--critical'',
               children = Alert (Canned WarningSign ''PROMPT INJECTION DETECTED'')\<rparr>
   \<and> className (messageCell (renderRow clearedEntry)) = ''log-message log-message--threat''"
proof -
  have a: "includesSub (toLowerCase (eventType clearedEntry)) ''not detected''"
    by (simp add: clearedEntry_def string_eval)
  have b: "\<not> isSecurityThreat (eventType clearedEntry)"
    using a by (simp add: isSecurityThreat_def Let_def)
  have n: "isSecurityThreat (node clearedEntry)"
    by (simp add: clearedEntry_def isSecurityThreat_def string_eval SECURITY_THREAT_TAGS_def)
  have l: "getSecurityTagLabel (node clearedEntry) = Canned WarningSign ''PROMPT INJECTION DETECTED''"
    by (simp add: clearedEntry_def getSecurityTagLabel_def string_eval)
  have c: "nodeCell (renderRow clearedEntry)
       = Some \<lparr>className = ''log-badge log-badge--critical'',
               children = Alert (Canned WarningSign ''PROMPT INJECTION DETECTED'')\<rparr>"
    using n l threat_node_shown [OF n] by (simp add: renderRow_def)
  have d: "className (messageCell (renderRow clearedEntry)) = ''log-message log-message--threat''"
    using n by (simp add: renderRow_def)
  from a b c d show ?thesis by simp
qed




section \<open>Properties of the new-expense page\<close>

lemma handleInputChange_amount:
  "parseFloat env (JString v) = NaN \<or> numLe0 (parseFloat env (JString v))
   \<Longrightarrow> numLe0 (ExpenseFormData.amount (handleInputChange env ''amount'' v prev))"
  by (cases "parseFloat env (JString v)") (auto simp: handleInputChange_def Let_def)

text \<open>
  C5, as the code has it. An entry that \<open>parseFloat\<close> reads as \<open>NaN\<close> or as a value
  \<open>\<le> 0\<close> is stored as an amount \<open>\<le> 0\<close>. For every form whose amount is \<open>\<le> 0\<close>,
  \<open>validateManualForm\<close> returns an error, and \<open>handleManualSubmit\<close> records it and
  returns without calling \<open>submitExpense\<close>. The error is the amount message when a
  category has been selected, and the category message when none has: the checks run in
  order and the first failing one answers.
\<close>

theorem nonpositive_amount_not_submitted:
  assumes "numLe0 (ExpenseFormData.amount (formData st))
           \<or> (\<exists>v prev. (parseFloat env (JString v) = NaN \<or> numLe0 (parseFloat env (JString v)))
                 \<and> formData st = handleInputChange env ''amount'' v prev)"
  shows "validateManualForm (formData st) =
           Some (if ExpenseFormData.category (formData st) = [] then ''Please select a category.''
                 else ''Amount must be greater than 0.'')
       \<and> handleManualSubmit env authRole st =
           (st\<lparr>errorMsg := Some (JString
                  (if ExpenseFormData.category (formData st) = [] then ''Please select a category.''
                   else ''Amount must be greater than 0.'')),
               successMsg := None\<rparr>, None)"
proof -
  from assms have le: "numLe0 (ExpenseFormData.amount (formData st))"
    using handleInputChange_amount by auto
  then have v: "validateManualForm (formData st) =
           Some (if ExpenseFormData.category (formData st) = [] then ''Please select a category.''
                 else ''Amount must be greater than 0.'')"
    by (simp add: validateManualForm_def)
  then have "handleManualSubmit env authRole st =
           (st\<lparr>errorMsg := Some (JString
                  (if ExpenseFormData.category (formData st) = [] then ''Please select a category.''
                   else ''Amount must be greater than 0.'')),
               successMsg := None\<rparr>, None)"
    by (simp add: handleManualSubmit_def Let_def)
  with v show ?thesis by simp
qed

theorem nonpositive_amount_not_submitted_witness:
  "numLe0 (ExpenseFormData.amount (formData (pageWith (handleInputChange exampleEnv ''amount'' ''abc'' exampleForm))))
   \<and> validateManualForm (handleInputChange exampleEnv ''amount'' ''abc'' exampleForm)
       = Some ''Amount must be greater than 0.''
   \<and> snd (handleManualSubmit exampleEnv (Some employee)
             (pageWith (handleInputChange exampleEnv ''amount'' ''abc'' exampleForm))) = None"
proof -
  have c: "ExpenseFormData.category (handleInputChange exampleEnv ''amount'' ''abc'' exampleForm) = ''Travel''"
    by (simp add: handleInputChange_def exampleForm_def initialFormData_def)
  have h: "numLe0 (ExpenseFormData.amount (formData (pageWith (handleInputChange exampleEnv ''amount'' ''abc'' exampleForm))))"
    by (simp add: pageWith_def handleInputChange_def exampleEnv_def)
  from nonpositive_amount_not_submitted [of "pageWith (handleInputChange exampleEnv ''amount'' ''abc'' exampleForm)" exampleEnv "Some employee", OF disjI1, OF h] c h
  show ?thesis by (simp add: pageWith_def)
qed

text \<open>
  C5 as stated fails on the form as the page first shows it: the amount is 0 and the
  validator reports the missing category, not the amount.
\<close>

theorem amount_error_not_always_reported:
  "numLe0 (ExpenseFormData.amount (initialFormData exampleEnv))
   \<and> validateManualForm (initialFormData exampleEnv) = Some ''Please select a category.''
   \<and> validateManualForm (initialFormData exampleEnv) \<noteq> Some ''Amount must be greater than 0.''"
  by (simp add: validateManualForm_def initialFormData_def)

text \<open>
  C2, as the code has it. The client keeps no record of transaction ids and rejects
  none. \<open>submitExpense\<close> reports success whenever the backend answers OK with a JSON
  object, whatever the id of the submission; \<open>handleManualSubmit\<close> gives every valid
  form the id that \<open>generateTransactionId\<close> returns and compares it with nothing. A
  submission whose id is already stored is rejected only if the backend's answer says
  so.
\<close>

theorem submission_id_never_checked:
  assumes "getIdToken env = Inr tok"
    and "fetchSubmitExpense env
           \<lparr>idToken = tok, role = r, submissionType = ''manual'', expense = d\<rparr>
         = Inr \<lparr>ok = True, status = code, bodyText = Inr body\<rparr>"
    and "JSON_parse env body = Inr (JObject kvs)"
  shows "submitExpense env d r =
           Inr \<lparr>success = True,
                message = orElse (readProp (JObject kvs) ''message'')
                            (JString ''Expense submitted successfully''),
                expenseId = orElse (readProp (JObject kvs) ''expenseId'')
                              (readProp (JObject kvs) ''TransactionID'')\<rparr>
       \<and> (validateManualForm (formData st) = None
            \<longrightarrow> map_option CompleteExpenseData.transactionId (snd (handleManualSubmit env authRole st))
                = Some (generateTransactionId env))"
proof -
  have a: "submitExpense env d r =
           Inr \<lparr>success = True,
                message = orElse (readProp (JObject kvs) ''message'')
                            (JString ''Expense submitted successfully''),
                expenseId = orElse (readProp (JObject kvs) ''expenseId'')
                              (readProp (JObject kvs) ''TransactionID'')\<rparr>"
    using assms
    by (simp add: submitExpense_def submitExpenseTry_def bindE_def readProp_def orElse_def)
  have b: "validateManualForm (formData st) = None
            \<longrightarrow> map_option CompleteExpenseData.transactionId (snd (handleManualSubmit env authRole st))
                = Some (generateTransactionId env)"
    by (auto simp: handleManualSubmit_def Let_def ExpenseFormData.extend_def
        CompleteExpenseData.fields_def split: sum.splits)
  from a b show ?thesis by simp
qed

theorem submission_id_never_checked_witness:
  "getIdToken exampleEnv = Inr (Some ''id-token'')
   \<and> validateManualForm (formData (pageWith exampleForm)) = None
   \<and> submitExpense exampleEnv exampleComplete employee =
       Inr \<lparr>success = True, message = JString ''Expense submitted successfully'',
            expenseId = JUndefined\<rparr>
   \<and> map_option CompleteExpenseData.transactionId
        (snd (handleManualSubmit exampleEnv (Some employee) (pageWith exampleForm)))
       = Some (generateTransactionId exampleEnv)"
proof -
  have h: "getIdToken exampleEnv = Inr (Some ''id-token'')"
    by (simp add: exampleEnv_def)
  have f: "fetchSubmitExpense exampleEnv
           \<lparr>idToken = Some ''id-token'', role = employee, submissionType = ''manual'',
            expense = exampleComplete\<rparr>
         = Inr \<lparr>ok = True, status = 200, bodyText = Inr ''body''\<rparr>"
    by (simp add: exampleEnv_def)
  have j: "JSON_parse exampleEnv ''body'' =
      Inr (JObject [(''success'', JString ''true''),
                    (''message'', JString ''Expense submitted successfully'')])"
    by (simp add: exampleEnv_def)
  have v: "validateManualForm (formData (pageWith exampleForm)) = None"
    by (simp add: validateManualForm_def pageWith_def exampleForm_def initialFormData_def trim_def
        isWhiteSpace_def)
  from submission_id_never_checked [OF h f j, where st = "pageWith exampleForm"
        and authRole = "Some employee"] h v
  show ?thesis by (simp add: readProp_def orElse_def)
qed

text \<open>
  C2 as stated fails against a backend that accepts what it is sent.
  \<open>generateTransactionId\<close> has a million values and depends on the clock only through
  its last three digits, so two submissions one second apart with the same random draw
  get the same id; the form is sent both times, and both times the page reports the
  success the backend answers with.
\<close>

theorem duplicate_transactionId_submitted:
  "generateTransactionId exampleEnv = ''T-123005''
   \<and> generateTransactionId (exampleEnv\<lparr>Date_now := 1700000001123\<rparr>) = ''T-123005''
   \<and> map_option transactionId
        (snd (handleManualSubmit exampleEnv (Some employee) (pageWith exampleForm)))
       = Some ''T-123005''
   \<and> map_option transactionId
        (snd (handleManualSubmit (exampleEnv\<lparr>Date_now := 1700000001123\<rparr>) (Some employee)
               (pageWith exampleForm)))
       = Some ''T-123005''
   \<and> successMsg (fst (handleManualSubmit exampleEnv (Some employee) (pageWith exampleForm)))
       = Some (JString ''Expense submitted successfully'')
   \<and> successMsg (fst (handleManualSubmit (exampleEnv\<lparr>Date_now := 1700000001123\<rparr>)
                         (Some employee) (pageWith exampleForm)))
       = Some (JString ''Expense submitted successfully'')"
proof -
  have g1: "generateTransactionId exampleEnv = ''T-123005''"
    by (simp add: generateTransactionId_def exampleEnv_def toStringNat.simps padStart.simps
        sliceLast_def char_of_def bit_0)
  have g2: "generateTransactionId (exampleEnv\<lparr>Date_now := 1700000001123\<rparr>) = ''T-123005''"
    by (simp add: generateTransactionId_def exampleEnv_def toStringNat.simps padStart.simps
        sliceLast_def char_of_def bit_0)
  have v: "validateManualForm (formData (pageWith exampleForm)) = None"
    by (simp add: validateManualForm_def pageWith_def exampleForm_def initialFormData_def trim_def
        isWhiteSpace_def)
  have s1: "submitExpense exampleEnv d r =
      Inr \<lparr>success = True, message = JString ''Expense submitted successfully'',
           expenseId = JUndefined\<rparr>" for d r
    by (simp add: submitExpense_def submitExpenseTry_def exampleEnv_def bindE_def orElse_def)
  have s2: "submitExpense (exampleEnv\<lparr>Date_now := 1700000001123\<rparr>) d r =
      Inr \<lparr>success = True, message = JString ''Expense submitted successfully'',
           expenseId = JUndefined\<rparr>" for d r
    by (simp add: submitExpense_def submitExpenseTry_def exampleEnv_def bindE_def orElse_def)
  have h1: "handleManualSubmit exampleEnv (Some employee) (pageWith exampleForm) =
     ((pageWith exampleForm)\<lparr>successMsg := Some (JString ''Expense submitted successfully'')\<rparr>,
      Some exampleComplete)"
    using v by (simp add: handleManualSubmit_def Let_def s1 g1)
       (simp add: pageWith_def exampleForm_def initialFormData_def exampleEnv_def exampleComplete_def)
  have h2: "handleManualSubmit (exampleEnv\<lparr>Date_now := 1700000001123\<rparr>) (Some employee) (pageWith exampleForm) =
     ((pageWith exampleForm)\<lparr>successMsg := Some (JString ''Expense submitted successfully'')\<rparr>,
      Some exampleComplete)"
    using v by (simp add: handleManualSubmit_def Let_def s2 g2)
       (simp add: pageWith_def exampleForm_def initialFormData_def exampleEnv_def exampleComplete_def)
  have t: "transactionId exampleComplete = ''T-123005''"
    by (simp add: exampleComplete_def ExpenseFormData.extend_def CompleteExpenseData.fields_def
        exampleForm_def initialFormData_def)
  show ?thesis
    by (simp only: g1 g2 h1 h2 t fst_conv snd_conv option.map) simp
qed

section \<open>Properties of the admin decision\<close>

text \<open>
  C4, as the code has it. \<open>sendAdminDecision\<close> looks at no state: once the ID token
  is there it returns success for every expense, decision and reason, so also for a
  second decision on the same expense and for an expense that is not flagged. There is
  no \<open>AlreadyResolvedError\<close>. On success \<open>handleDecision\<close> removes the expense from
  the list of its own page and closes the dialogue.
\<close>

theorem sendAdminDecision_always_succeeds:
  assumes "getIdToken env = Inr tok"
  shows "\<exists>m. sendAdminDecision env expId decision reason = Inr \<lparr>success = True, message = m\<rparr>
           \<and> handleDecision env decision (st\<lparr>selectedExpense := Some sel\<rparr>) =
               st\<lparr>selectedExpense := None,
                  decisionReason := [],
                  processing := False,
                  decisionError := None,
                  decisionSuccess := Some m,
                  expenses := filter (\<lambda>e. id' e \<noteq> id' sel) (expenses st)\<rparr>"
  using assms by (simp add: sendAdminDecision_def handleDecision_def bindE_def Let_def)

theorem sendAdminDecision_always_succeeds_witness:
  "getIdToken exampleEnv = Inr (Some ''id-token'')
   \<and> sendAdminDecision exampleEnv (JString ''exp-101'') approve (Some ''receipt checked'') =
       Inr \<lparr>success = True, message = JString ''Expense approved successfully (MOCK)''\<rparr>
   \<and> expenses (handleDecision exampleEnv approve (reviewPage (exampleExpense Flagged))) = []
   \<and> decisionError (handleDecision exampleEnv approve (reviewPage (exampleExpense Flagged))) = None"
proof -
  have h: "getIdToken exampleEnv = Inr (Some ''id-token'')"
    by (simp add: exampleEnv_def)
  have p: "(reviewPage (exampleExpense Flagged))\<lparr>selectedExpense := Some (exampleExpense Flagged)\<rparr>
           = reviewPage (exampleExpense Flagged)"
    by (simp add: reviewPage_def)
  have m: "sendAdminDecision exampleEnv (JString ''exp-101'') approve (Some ''receipt checked'') =
       Inr \<lparr>success = True, message = JString ''Expense approved successfully (MOCK)''\<rparr>"
    by (simp add: sendAdminDecision_def bindE_def h)
  from sendAdminDecision_always_succeeds [OF h, where expId = "JString ''exp-101''"
        and decision = approve and reason = "Some ''receipt checked''"
        and st = "reviewPage (exampleExpense Flagged)" and sel = "exampleExpense Flagged"]
  obtain m' where "handleDecision exampleEnv approve (reviewPage (exampleExpense Flagged)) =
               (reviewPage (exampleExpense Flagged))\<lparr>selectedExpense := None,
                  decisionReason := [],
                  processing := False,
                  decisionError := None,
                  decisionSuccess := Some m',
                  expenses := filter (\<lambda>e. id' e \<noteq> id' (exampleExpense Flagged))
                                (expenses (reviewPage (exampleExpense Flagged)))\<rparr>"
    unfolding p by blast
  then have "expenses (handleDecision exampleEnv approve (reviewPage (exampleExpense Flagged))) = []
    \<and> decisionError (handleDecision exampleEnv approve (reviewPage (exampleExpense Flagged))) = None"
    by (simp add: reviewPage_def)
  with h m show ?thesis by simp
qed

text \<open>
  C4 as stated fails: two decisions on the same flagged expense both succeed, on the
  stub and on two review pages that both show the expense, and so does a decision on an
  expense that is already approved or still pending.
\<close>

theorem resolution_not_exclusive:
  "(case sendAdminDecision exampleEnv (id' (exampleExpense Flagged)) approve None of
      Inr res \<Rightarrow> success res | Inl e \<Rightarrow> False)
   \<and> (case sendAdminDecision exampleEnv (id' (exampleExpense Flagged)) deny (Some ''second admin'') of
        Inr res \<Rightarrow> success res | Inl e \<Rightarrow> False)
   \<and> decisionSuccess (handleDecision exampleEnv approve (reviewPage (exampleExpense Flagged)))
       \<noteq> None
   \<and> decisionError (handleDecision exampleEnv approve (reviewPage (exampleExpense Flagged)))
       = None
   \<and> decisionSuccess (handleDecision exampleEnv deny (reviewPage (exampleExpense Flagged)))
       \<noteq> None
   \<and> decisionError (handleDecision exampleEnv deny (reviewPage (exampleExpense Flagged)))
       = None
   \<and> decisionSuccess (handleDecision exampleEnv deny (reviewPage (exampleExpense Approved)))
       \<noteq> None
   \<and> decisionError (handleDecision exampleEnv deny (reviewPage (exampleExpense Approved)))
       = None
   \<and> decisionSuccess (handleDecision exampleEnv approve (reviewPage (exampleExpense Pending)))
       \<noteq> None
   \<and> decisionError (handleDecision exampleEnv approve (reviewPage (exampleExpense Pending)))
       = None"
  by (simp add: sendAdminDecision_def handleDecision_def bindE_def Let_def exampleEnv_def
      reviewPage_def)

section \<open>Properties of the client on a failing backend\<close>

text \<open>
  C9, as the code has it, for \<open>submitExpense\<close> and a caller that has its ID token.
  The function does not throw. A \<open>fetch\<close> that rejects, a response whose body cannot
  be read and a body that does not parse give the result \<open>success: false\<close> whose
  message is the error's own text when the thrown value is an \<open>Error\<close>, and the fixed
  text with the retry hint otherwise; a response that is not OK gives the message
  "HTTP error! status: " and the status.
\<close>

theorem backend_failure_results:
  assumes "getIdToken env = Inr tok"
  shows "(fetchSubmitExpense env
            \<lparr>idToken = tok, role = r, submissionType = ''manual'', expense = d\<rparr> = Inl err
          \<longrightarrow> submitExpense env d r =
               Inr \<lparr>success = False,
                    message = (case err of
                                 Error msg \<Rightarrow> JString msg
                               | NonError v \<Rightarrow> JString ''Failed to submit expense. Please try again.''),
                    expenseId = JUndefined\<rparr>)
       \<and> (fetchSubmitExpense env
            \<lparr>idToken = tok, role = r, submissionType = ''manual'', expense = d\<rparr>
              = Inr \<lparr>ok = False, status = code, bodyText = Inr body\<rparr>
          \<longrightarrow> submitExpense env d r =
               Inr \<lparr>success = False,
                    message = JString (''HTTP error! status: '' @ toStringNat code),
                    expenseId = JUndefined\<rparr>)
       \<and> (fetchSubmitExpense env
            \<lparr>idToken = tok, role = r, submissionType = ''manual'', expense = d\<rparr>
              = Inr \<lparr>ok = flag, status = code, bodyText = Inl err\<rparr>
          \<longrightarrow> submitExpense env d r =
               Inr \<lparr>success = False,
                    message = (case err of
                                 Error msg \<Rightarrow> JString msg
                               | NonError v \<Rightarrow> JString ''Failed to submit expense. Please try again.''),
                    expenseId = JUndefined\<rparr>)
       \<and> (fetchSubmitExpense env
            \<lparr>idToken = tok, role = r, submissionType = ''manual'', expense = d\<rparr>
              = Inr \<lparr>ok = True, status = code, bodyText = Inr body\<rparr>
            \<and> JSON_parse env body = Inl err
          \<longrightarrow> submitExpense env d r =
               Inr \<lparr>success = False,
                    message = (case err of
                                 Error msg \<Rightarrow> JString msg
                               | NonError v \<Rightarrow> JString ''Failed to submit expense. Please try again.''),
                    expenseId = JUndefined\<rparr>)
       \<and> (\<exists>res. submitExpense env d r = Inr res)"
  using assms
  by (auto simp: submitExpense_def submitExpenseTry_def bindE_def split: sum.splits)

theorem backend_failure_results_witness:
  "getIdToken offlineEnv = Inr (Some ''id-token'')
   \<and> fetchSubmitExpense offlineEnv
        \<lparr>idToken = Some ''id-token'', role = employee, submissionType = ''manual'',
         expense = exampleComplete\<rparr> = Inl (Error ''Failed to fetch'')
   \<and> submitExpense offlineEnv exampleComplete employee =
       Inr \<lparr>success = False, message = JString ''Failed to fetch'', expenseId = JUndefined\<rparr>"
proof -
  have h: "getIdToken offlineEnv = Inr (Some ''id-token'')"
    by (simp add: offlineEnv_def exampleEnv_def)
  have f: "fetchSubmitExpense offlineEnv
            \<lparr>idToken = Some ''id-token'', role = employee, submissionType = ''manual'',
             expense = exampleComplete\<rparr> = Inl (Error ''Failed to fetch'')"
    by (simp add: offlineEnv_def)
  from backend_failure_results [OF h, where r = employee and d = exampleComplete
        and err = "Error ''Failed to fetch''"] h f
  show ?thesis by simp
qed

text \<open>
  C9 as stated fails. When the network is down \<open>fetchEmployeeExpenses\<close> returns the
  empty list, which is also its answer to an empty response: the caller receives no
  failure. \<open>submitExpense\<close> returns the error text as it is, with no retry hint.
\<close>

theorem failure_swallowed_or_without_hint:
  "fetchEmployeeExpenses offlineEnv ''EMP-401'' = Inr []
   \<and> fetchEmployeeExpenses exampleEnv ''EMP-401'' = Inr []
   \<and> submitExpense offlineEnv exampleComplete employee =
       Inr \<lparr>success = False, message = JString ''Failed to fetch'', expenseId = JUndefined\<rparr>"
  by (simp add: fetchEmployeeExpenses_def fetchEmployeeExpensesTry_def submitExpense_def
      submitExpenseTry_def offlineEnv_def exampleEnv_def bindE_def)

section \<open>Properties of the decision pipeline of the specification\<close>

text \<open>
  C1. When the validation result is not ok the router's decision is Denied, its reason
  is the concatenation of the violations' reasons, and nothing else is looked at: the
  decision is the same for every anomaly signal, threshold, policy and amount, and it is
  never Flagged.
\<close>

theorem validation_failure_is_denied:
  assumes "\<not> ValidationResult.ok v"
  shows "decisionRouter flagThreshold p amt v a =
           \<lparr>state = Denied, Decision.decisionReason = concat (map violationReason (violations v)),
            actor = ''system''\<rparr>
       \<and> state (decisionRouter flagThreshold p amt v a) \<noteq> Flagged
       \<and> decisionRouter flagThreshold p amt v a = decisionRouter flagThreshold' p' amt' v a'"
  using assms by (simp add: decisionRouter_def)

theorem validation_failure_is_denied_witness:
  "\<not> ValidationResult.ok (policyValidator [''Travel''] travelPolicy (travelSubmission 6000))
   \<and> Policy.requiresApproval travelPolicy
   \<and> score (anomalyScorer {}) < FLAG_THRESHOLD
   \<and> decisionRouter FLAG_THRESHOLD travelPolicy 6000
        (policyValidator [''Travel''] travelPolicy (travelSubmission 6000)) (anomalyScorer {})
      = \<lparr>state = Denied, Decision.decisionReason = ''amount exceeds the policy limit'', actor = ''system''\<rparr>"
proof -
  have v: "policyValidator [''Travel''] travelPolicy (travelSubmission 6000)
           = \<lparr>ValidationResult.ok = False,
              violations = [\<lparr>kind = amount_exceeds_limit,
                             violationReason = ''amount exceeds the policy limit''\<rparr>]\<rparr>"
    by (simp add: policyValidator_def travelPolicy_def travelSubmission_def)
  have h: "\<not> ValidationResult.ok (policyValidator [''Travel''] travelPolicy (travelSubmission 6000))"
    by (simp add: v)
  have s: "score (anomalyScorer {}) < FLAG_THRESHOLD"
    by (simp add: anomalyScorer_def contributingSignals_def FLAG_THRESHOLD_def)
  have r: "Policy.requiresApproval travelPolicy"
    by (simp add: travelPolicy_def)
  from validation_failure_is_denied [OF h, of FLAG_THRESHOLD travelPolicy 6000 "anomalyScorer {}"] h s r
  show ?thesis by (simp add: v)
qed

lemma find_active:
  "find P xs = Some x \<Longrightarrow> P x \<and> x \<in> set xs"
  by (induction xs) (auto split: if_splits)

text \<open>
  C7. Resolution returns one policy or fails. When an active policy of the category is
  listed, the result is such a policy, whatever the Global policy allows; when none is
  but an active Global policy is, the result is an active Global policy; when neither
  is, resolution fails with \<open>NoPolicyError\<close> and the submission is denied with the
  reason "no applicable policy".
\<close>

theorem resolvePolicy_precedence:
  "((\<exists>p \<in> set policies. Policy.status p = active \<and> Policy.category p = cat)
      \<longrightarrow> (\<exists>p. resolvePolicy cat policies = Inr p \<and> p \<in> set policies
               \<and> Policy.status p = active \<and> Policy.category p = cat))
   \<and> (\<not> (\<exists>p \<in> set policies. Policy.status p = active \<and> Policy.category p = cat)
        \<and> (\<exists>p \<in> set policies. Policy.status p = active \<and> Policy.category p = ''Global'')
      \<longrightarrow> (\<exists>p. resolvePolicy cat policies = Inr p \<and> p \<in> set policies
               \<and> Policy.status p = active \<and> Policy.category p = ''Global''))
   \<and> (\<not> (\<exists>p \<in> set policies. Policy.status p = active \<and> Policy.category p = cat)
        \<and> \<not> (\<exists>p \<in> set policies. Policy.status p = active \<and> Policy.category p = ''Global'')
        \<and> ExpenseSubmission.category sub = cat
      \<longrightarrow> resolvePolicy cat policies = Inl NoPolicyError
          \<and> evaluateSubmission flagThreshold recognised policies triggered sub
              = \<lparr>state = Denied, Decision.decisionReason = ''no applicable policy'', actor = ''system''\<rparr>)"
proof (intro conjI impI)
  assume "\<exists>p \<in> set policies. Policy.status p = active \<and> Policy.category p = cat"
  then obtain p where "find (\<lambda>p. Policy.status p = active \<and> Policy.category p = cat) policies = Some p"
    by (cases "find (\<lambda>p. Policy.status p = active \<and> Policy.category p = cat) policies")
       (auto simp: find_None_iff)
  then show "\<exists>p. resolvePolicy cat policies = Inr p \<and> p \<in> set policies
               \<and> Policy.status p = active \<and> Policy.category p = cat"
    using find_active [of "\<lambda>p. Policy.status p = active \<and> Policy.category p = cat" policies p]
    by (simp add: resolvePolicy_def)
next
  assume a: "\<not> (\<exists>p \<in> set policies. Policy.status p = active \<and> Policy.category p = cat)
        \<and> (\<exists>p \<in> set policies. Policy.status p = active \<and> Policy.category p = ''Global'')"
  then have n: "find (\<lambda>p. Policy.status p = active \<and> Policy.category p = cat) policies = None"
    by (simp add: find_None_iff)
  from a obtain p where "find (\<lambda>p. Policy.status p = active \<and> Policy.category p = ''Global'') policies = Some p"
    by (cases "find (\<lambda>p. Policy.status p = active \<and> Policy.category p = ''Global'') policies")
       (auto simp: find_None_iff)
  then show "\<exists>p. resolvePolicy cat policies = Inr p \<and> p \<in> set policies
               \<and> Policy.status p = active \<and> Policy.category p = ''Global''"
    using find_active [of "\<lambda>p. Policy.status p = active \<and> Policy.category p = ''Global''" policies p] n
    by (simp add: resolvePolicy_def)
next
  assume a: "\<not> (\<exists>p \<in> set policies. Policy.status p = active \<and> Policy.category p = cat)
        \<and> \<not> (\<exists>p \<in> set policies. Policy.status p = active \<and> Policy.category p = ''Global'')
        \<and> ExpenseSubmission.category sub = cat"
  then have n: "find (\<lambda>p. Policy.status p = active \<and> Policy.category p = cat) policies = None"
    and g: "find (\<lambda>p. Policy.status p = active \<and> Policy.category p = ''Global'') policies = None"
    by (simp_all add: find_None_iff)
  then show r: "resolvePolicy cat policies = Inl NoPolicyError"
    by (simp add: resolvePolicy_def)
  with a show "evaluateSubmission flagThreshold recognised policies triggered sub
              = \<lparr>state = Denied, Decision.decisionReason = ''no applicable policy'', actor = ''system''\<rparr>"
    by (simp add: evaluateSubmission_def)
qed

theorem resolvePolicy_precedence_witness:
  "resolvePolicy ''Travel'' [globalPolicy, travelPolicy] = Inr travelPolicy
   \<and> Policy.maxAmount globalPolicy < Policy.maxAmount travelPolicy
   \<and> resolvePolicy ''Equipment'' [globalPolicy, travelPolicy] = Inr globalPolicy
   \<and> resolvePolicy ''Travel'' [globalPolicy\<lparr>Policy.status := inactive\<rparr>,
                               travelPolicy\<lparr>Policy.status := inactive\<rparr>] = Inl NoPolicyError
   \<and> evaluateSubmission FLAG_THRESHOLD [''Travel'']
        [globalPolicy\<lparr>Policy.status := inactive\<rparr>, travelPolicy\<lparr>Policy.status := inactive\<rparr>] {}
        (travelSubmission 50)
      = \<lparr>state = Denied, Decision.decisionReason = ''no applicable policy'', actor = ''system''\<rparr>"
proof -
  have a: "resolvePolicy ''Travel'' [globalPolicy, travelPolicy] = Inr travelPolicy"
    by (simp add: resolvePolicy_def globalPolicy_def travelPolicy_def)
  have b: "Policy.maxAmount globalPolicy < Policy.maxAmount travelPolicy"
    by (simp add: globalPolicy_def travelPolicy_def)
  have c: "resolvePolicy ''Equipment'' [globalPolicy, travelPolicy] = Inr globalPolicy"
    by (simp add: resolvePolicy_def globalPolicy_def travelPolicy_def)
  have n1: "\<not> (\<exists>p \<in> set [globalPolicy\<lparr>Policy.status := inactive\<rparr>, travelPolicy\<lparr>Policy.status := inactive\<rparr>].
               Policy.status p = active \<and> Policy.category p = ''Travel'')"
    by simp
  have n2: "\<not> (\<exists>p \<in> set [globalPolicy\<lparr>Policy.status := inactive\<rparr>, travelPolicy\<lparr>Policy.status := inactive\<rparr>].
               Policy.status p = active \<and> Policy.category p = ''Global'')"
    by simp
  have n3: "ExpenseSubmission.category (travelSubmission 50) = ''Travel''"
    by (simp add: travelSubmission_def)
  from resolvePolicy_precedence [of "[globalPolicy\<lparr>Policy.status := inactive\<rparr>, travelPolicy\<lparr>Policy.status := inactive\<rparr>]"
        "''Travel''" "travelSubmission 50" FLAG_THRESHOLD "[''Travel'']" "{}"] n1 n2 n3 a b c
  show ?thesis by blast
qed

lemma ALL_SIGNALS_complete: "set ALL_SIGNALS = UNIV"
proof -
  have "s \<in> set ALL_SIGNALS" for s
    by (cases s) (simp_all add: ALL_SIGNALS_def)
  then show ?thesis by auto
qed

lemma ALL_SIGNALS_distinct: "distinct ALL_SIGNALS"
  by (simp add: ALL_SIGNALS_def)

lemma ALL_SIGNALS_descending: "sorted_wrt (\<lambda>a b. weight b < weight a) ALL_SIGNALS"
  by (simp add: ALL_SIGNALS_def)

lemma contributingSignals_set: "set (contributingSignals T) = T"
  using ALL_SIGNALS_complete by (auto simp: contributingSignals_def)

lemma contributingSignals_distinct: "distinct (contributingSignals T)"
  by (simp add: contributingSignals_def ALL_SIGNALS_distinct)

lemma contributingSignals_descending:
  "sorted_wrt (\<lambda>a b. weight b < weight a) (contributingSignals T)"
  unfolding contributingSignals_def
  by (rule sorted_wrt_filter) (rule ALL_SIGNALS_descending)

lemma weight_filter_mono:
  "(\<And>x. P x \<Longrightarrow> Q x)
   \<Longrightarrow> sum_list (map weight (filter P xs)) \<le> sum_list (map weight (filter Q xs))"
  by (induction xs) auto

lemma contributing_weight_sum:
  "sum_list (map weight (contributingSignals T)) = (\<Sum>s\<in>T. weight s)"
  using sum_list_distinct_conv_sum_set [OF contributingSignals_distinct, of weight T]
  by (simp add: contributingSignals_set)

text \<open>
  C6. The score is the sum of the weights of the triggered signals capped at 100, it is
  0 when no signal is triggered, and it does not decrease when signals are added. The
  reasons are those of the triggered signals, each once, in the fixed order of
  descending weight.
\<close>

theorem anomalyScorer_monotone_capped:
  "score (anomalyScorer T) = min 100 (\<Sum>s\<in>T. weight s)
   \<and> score (anomalyScorer T) \<le> 100
   \<and> score (anomalyScorer {}) = 0
   \<and> (T \<subseteq> T' \<longrightarrow> score (anomalyScorer T) \<le> score (anomalyScorer T'))
   \<and> score (anomalyScorer T) \<le> score (anomalyScorer (insert s T))
   \<and> reasons (anomalyScorer T) = map signalReason (contributingSignals T)
   \<and> set (contributingSignals T) = T
   \<and> distinct (contributingSignals T)
   \<and> sorted_wrt (\<lambda>a b. weight b < weight a) (contributingSignals T)"
proof -
  have mono: "score (anomalyScorer A) \<le> score (anomalyScorer B)" if "A \<subseteq> B" for A B
  proof -
    have "sum_list (map weight (contributingSignals A)) \<le> sum_list (map weight (contributingSignals B))"
      unfolding contributingSignals_def using that by (intro weight_filter_mono) auto
    then show ?thesis by (simp add: anomalyScorer_def)
  qed
  have a: "score (anomalyScorer T) = min 100 (\<Sum>s\<in>T. weight s)"
    by (simp add: anomalyScorer_def contributing_weight_sum)
  have b: "score (anomalyScorer T) \<le> 100"
    by (simp add: anomalyScorer_def)
  have c: "score (anomalyScorer {}) = 0"
    by (simp add: anomalyScorer_def contributingSignals_def)
  have d: "T \<subseteq> T' \<longrightarrow> score (anomalyScorer T) \<le> score (anomalyScorer T')"
    using mono by blast
  have e: "score (anomalyScorer T) \<le> score (anomalyScorer (insert s T))"
    by (rule mono) auto
  have f: "reasons (anomalyScorer T) = map signalReason (contributingSignals T)"
    by (simp add: anomalyScorer_def)
  from a b c d e f contributingSignals_set contributingSignals_distinct
    contributingSignals_descending
  show ?thesis by blast
qed

theorem anomalyScorer_monotone_capped_witness:
  "{SubmissionLag} \<subseteq> {SubmissionLag, DateOutOfRange}
   \<and> score (anomalyScorer {SubmissionLag}) = 15
   \<and> score (anomalyScorer {SubmissionLag, DateOutOfRange}) = 50
   \<and> score (anomalyScorer {SubmissionLag}) \<le> score (anomalyScorer {SubmissionLag, DateOutOfRange})
   \<and> reasons (anomalyScorer {SubmissionLag, DateOutOfRange})
       = [signalReason DateOutOfRange, signalReason SubmissionLag]
   \<and> score (anomalyScorer UNIV) = 100"
proof -
  have h: "{SubmissionLag} \<subseteq> {SubmissionLag, DateOutOfRange}" by simp
  have a: "score (anomalyScorer {SubmissionLag}) = 15"
    by (simp add: anomalyScorer_def contributingSignals_def ALL_SIGNALS_def)
  have b: "score (anomalyScorer {SubmissionLag, DateOutOfRange}) = 50"
    by (simp add: anomalyScorer_def contributingSignals_def ALL_SIGNALS_def)
  have c: "contributingSignals {SubmissionLag, DateOutOfRange} = [DateOutOfRange, SubmissionLag]"
    by (simp add: contributingSignals_def ALL_SIGNALS_def)
  have d: "score (anomalyScorer UNIV) = 100"
    by (simp add: anomalyScorer_def contributingSignals_def ALL_SIGNALS_def)
  from anomalyScorer_monotone_capped [of "{SubmissionLag, DateOutOfRange}" "{SubmissionLag, DateOutOfRange}" SubmissionLag]
    anomalyScorer_monotone_capped [of "{SubmissionLag}" "{SubmissionLag, DateOutOfRange}" SubmissionLag]
    h a b c d
  show ?thesis by simp
qed

lemma decisionRouter_state:
  "state (decisionRouter flagThreshold p amt v a) \<in> {Approved, Denied, Flagged}"
  by (simp add: decisionRouter_def)

lemma evaluateSubmission_state:
  "state (evaluateSubmission flagThreshold recognised policies triggered sub)
     \<in> {Approved, Denied, Flagged}"
  using decisionRouter_state
  by (auto simp: evaluateSubmission_def split: sum.splits)

lemma resolve_Inr:
  "resolve current adminId chosen why = Inr next
   \<Longrightarrow> state current = Flagged \<and> state next \<in> {Approved, Denied}"
  by (cases chosen) (auto simp: resolve_def split: ExpenseStatus.splits)

lemma transition_legal:
  "transition d d'
   \<Longrightarrow> (state d, state d') \<in>
         {(Pending, Approved), (Pending, Denied), (Pending, Flagged),
          (Flagged, Approved), (Flagged, Denied)}"
proof (induction rule: transition.induct)
  case (routed current flagThreshold recognised policies triggered sub)
  then show ?case
    using evaluateSubmission_state [of flagThreshold recognised policies triggered sub]
    by auto
next
  case (resolved current adminId chosen why "next")
  then show ?case
    using resolve_Inr [of current adminId chosen why "next"] by auto
qed

lemma terminal_stuck:
  "transition\<^sup>*\<^sup>* d d' \<Longrightarrow> state d \<in> {Approved, Denied} \<Longrightarrow> d' = d"
proof (induction rule: converse_rtranclp_induct)
  case base
  then show ?case by simp
next
  case (step y z)
  from transition_legal [OF step.hyps(1)] step.prems show ?case by auto
qed

lemma approved_example:
  "evaluateSubmission FLAG_THRESHOLD [''Travel''] [globalPolicy, travelPolicy] {} (travelSubmission 50)
   = \<lparr>state = Approved, Decision.decisionReason = ''within policy, no anomalies'', actor = ''system''\<rparr>"
  by (simp add: evaluateSubmission_def resolvePolicy_def globalPolicy_def travelPolicy_def
      travelSubmission_def decisionRouter_def policyValidator_def anomalyScorer_def
      contributingSignals_def FLAG_THRESHOLD_def)

lemma denied_example:
  "evaluateSubmission FLAG_THRESHOLD [''Travel''] [globalPolicy, travelPolicy] {} (travelSubmission 6000)
   = \<lparr>state = Denied, Decision.decisionReason = ''amount exceeds the policy limit'', actor = ''system''\<rparr>"
  by (simp add: evaluateSubmission_def resolvePolicy_def globalPolicy_def travelPolicy_def
      travelSubmission_def decisionRouter_def policyValidator_def anomalyScorer_def
      contributingSignals_def FLAG_THRESHOLD_def)

lemma flagged_example:
  "evaluateSubmission FLAG_THRESHOLD [''Travel''] [globalPolicy, travelPolicy] {} (travelSubmission 2000)
   = \<lparr>state = Flagged, Decision.decisionReason = ''explicit approval required'', actor = ''system''\<rparr>"
  by (simp add: evaluateSubmission_def resolvePolicy_def globalPolicy_def travelPolicy_def
      travelSubmission_def decisionRouter_def policyValidator_def anomalyScorer_def
      contributingSignals_def FLAG_THRESHOLD_def)

lemma transitions_realised:
  "(s, s') \<in> {(Pending, Approved), (Pending, Denied), (Pending, Flagged),
              (Flagged, Approved), (Flagged, Denied)}
   \<Longrightarrow> \<exists>d d'. state d = s \<and> state d' = s' \<and> transition d d'"
proof -
  assume a: "(s, s') \<in> {(Pending, Approved), (Pending, Denied), (Pending, Flagged),
              (Flagged, Approved), (Flagged, Denied)}"
  have p: "state pendingDecision = Pending" by (simp add: pendingDecision_def)
  have r: "transition pendingDecision
             (evaluateSubmission FLAG_THRESHOLD [''Travel''] [globalPolicy, travelPolicy] {}
                (travelSubmission x))" for x
    by (rule transition.routed) (rule p)
  let ?f = "\<lparr>state = Flagged, Decision.decisionReason = ''explicit approval required'', actor = ''system''\<rparr>"
  have h: "transition ?f \<lparr>state = hitlState c, Decision.decisionReason = ''resolved by administrator'',
                            actor = ''admin-1''\<rparr>" for c
    by (rule transition.resolved [of _ "''admin-1''" c None]) (simp add: resolve_def)
  from a consider "s = Pending \<and> s' = Approved" | "s = Pending \<and> s' = Denied"
    | "s = Pending \<and> s' = Flagged" | "s = Flagged \<and> s' = Approved" | "s = Flagged \<and> s' = Denied"
    by auto
  then show ?thesis
  proof cases
    case 1
    with r [of 50] p show ?thesis
      unfolding approved_example by (intro exI [of _ pendingDecision] exI) auto
  next
    case 2
    with r [of 6000] p show ?thesis
      unfolding denied_example by (intro exI [of _ pendingDecision] exI) auto
  next
    case 3
    with r [of 2000] p show ?thesis
      unfolding flagged_example by (intro exI [of _ pendingDecision] exI) auto
  next
    case 4
    with h [of HitlApproved] show ?thesis
      by (intro exI [of _ ?f] exI) auto
  next
    case 5
    with h [of HitlDenied] show ?thesis
      by (intro exI [of _ ?f] exI) auto
  qed
qed

text \<open>
  C3. Every transition is one of Pending to Approved, Denied or Flagged and Flagged to
  Approved or Denied; each of the five occurs; and from a decision that is Approved or
  Denied no sequence of transitions leads anywhere else.
\<close>

theorem decision_state_machine:
  "(transition d d'
      \<longrightarrow> (state d, state d') \<in>
            {(Pending, Approved), (Pending, Denied), (Pending, Flagged),
             (Flagged, Approved), (Flagged, Denied)})
   \<and> (transition\<^sup>*\<^sup>* d d' \<and> state d \<in> {Approved, Denied} \<longrightarrow> d' = d)
   \<and> ((s, s') \<in> {(Pending, Approved), (Pending, Denied), (Pending, Flagged),
                   (Flagged, Approved), (Flagged, Denied)}
      \<longrightarrow> (\<exists>c c'. state c = s \<and> state c' = s' \<and> transition c c'))"
  using transition_legal [of d d'] terminal_stuck [of d d'] transitions_realised [of s s']
  by blast

theorem decision_state_machine_witness:
  "transition pendingDecision
     \<lparr>state = Flagged, Decision.decisionReason = ''explicit approval required'', actor = ''system''\<rparr>
   \<and> transition
       \<lparr>state = Flagged, Decision.decisionReason = ''explicit approval required'', actor = ''system''\<rparr>
       \<lparr>state = Approved, Decision.decisionReason = ''receipt checked'', actor = ''admin-1''\<rparr>
   \<and> resolve \<lparr>state = Approved, Decision.decisionReason = ''receipt checked'', actor = ''admin-1''\<rparr>
        ''admin-2'' HitlDenied None = Inl AlreadyResolvedError
   \<and> \<not> transition
         \<lparr>state = Approved, Decision.decisionReason = ''receipt checked'', actor = ''admin-1''\<rparr>
         \<lparr>state = Denied, Decision.decisionReason = ''resolved by administrator'', actor = ''admin-2''\<rparr>"
proof -
  have p: "state pendingDecision = Pending" by (simp add: pendingDecision_def)
  have a: "transition pendingDecision
     \<lparr>state = Flagged, Decision.decisionReason = ''explicit approval required'', actor = ''system''\<rparr>"
    using transition.routed [OF p, of FLAG_THRESHOLD "[''Travel'']" "[globalPolicy, travelPolicy]" "{}"
        "travelSubmission 2000"]
    by (simp add: flagged_example)
  have b: "transition
       \<lparr>state = Flagged, Decision.decisionReason = ''explicit approval required'', actor = ''system''\<rparr>
       \<lparr>state = Approved, Decision.decisionReason = ''receipt checked'', actor = ''admin-1''\<rparr>"
    by (rule transition.resolved [of _ "''admin-1''" HitlApproved "Some ''receipt checked''"])
       (simp add: resolve_def)
  have c: "resolve \<lparr>state = Approved, Decision.decisionReason = ''receipt checked'', actor = ''admin-1''\<rparr>
        ''admin-2'' HitlDenied None = Inl AlreadyResolvedError"
    by (simp add: resolve_def)
  from decision_state_machine
        [of "\<lparr>state = Approved, Decision.decisionReason = ''receipt checked'', actor = ''admin-1''\<rparr>"
            "\<lparr>state = Denied, Decision.decisionReason = ''resolved by administrator'', actor = ''admin-2''\<rparr>"]
  have d: "\<not> transition
         \<lparr>state = Approved, Decision.decisionReason = ''receipt checked'', actor = ''admin-1''\<rparr>
         \<lparr>state = Denied, Decision.decisionReason = ''resolved by administrator'', actor = ''admin-2''\<rparr>"
    by auto
  from a b c d show ?thesis by simp
qed

end
